theory Spec2Isabelle
  imports
    Complex_Main
    "HOL-Library.Word"
    "HOL-Library.AList"
    "HOL-Library.Char_ord"
    "HOL-Library.List_Lexorder"
begin

unbundle bit_operations_syntax

section \<open>Chapter 22: the TTL cache (\<^verbatim>\<open>phase6_deployment/ch22_performance/main.py\<close>)\<close>

subsection \<open>\<^verbatim>\<open>class InMemoryCache\<close>\<close>

text \<open>
  A Python value of type \<^verbatim>\<open>Any\<close> is either \<^verbatim>\<open>None\<close> or something else: it is modelled
  as \<open>'v option\<close>, where \<open>None\<close> is Python's \<^verbatim>\<open>None\<close> and \<open>Some v\<close> is any other object.
  \<^verbatim>\<open>_store\<close> maps a key to the pair (value, expires_at); \<^verbatim>\<open>time.time()\<close> is a parameter
  \<open>now\<close> of every operation that reads the clock. The fields \<^verbatim>\<open>_store\<close>, \<^verbatim>\<open>_hits\<close>,
  \<^verbatim>\<open>_misses\<close> lose their leading underscore.
\<close>

record 'v InMemoryCache =
  store :: "string \<rightharpoonup> ('v option \<times> real)"
  hits :: nat
  misses :: nat

definition InMemoryCache_init :: "'v InMemoryCache" where
  "InMemoryCache_init = \<lparr>store = Map.empty, hits = 0, misses = 0\<rparr>"

definition InMemoryCache_get ::
  "real \<Rightarrow> string \<Rightarrow> 'v InMemoryCache \<Rightarrow> 'v option \<times> 'v InMemoryCache" where
  "InMemoryCache_get now key c =
     (case store c key of
        Some (val, expires_at) \<Rightarrow>
          if now < expires_at then (val, c\<lparr>hits := hits c + 1\<rparr>)
          else (None, c\<lparr>store := (store c)(key := None), misses := misses c + 1\<rparr>)
      | None \<Rightarrow> (None, c\<lparr>misses := misses c + 1\<rparr>))"

definition InMemoryCache_set ::
  "real \<Rightarrow> string \<Rightarrow> 'v option \<Rightarrow> int \<Rightarrow> 'v InMemoryCache \<Rightarrow> 'v InMemoryCache" where
  "InMemoryCache_set now key val ttl c =
     (let expires_at = now + of_int ttl
      in c\<lparr>store := (store c)(key \<mapsto> (val, expires_at))\<rparr>)"

definition InMemoryCache_clear :: "'v InMemoryCache \<Rightarrow> 'v InMemoryCache" where
  "InMemoryCache_clear c = c\<lparr>store := Map.empty, hits := 0, misses := 0\<rparr>"

subsection \<open>\<^verbatim>\<open>hashlib.md5(...).hexdigest()\<close>\<close>

text \<open>
  The decorator hashes its key source with MD5 (RFC 1321) and keeps the lower-case
  hexadecimal digest. The message is a byte string, one \<open>char\<close> for each byte.
\<close>

definition md5_K :: "32 word list" where
  "md5_K =
    [0xd76aa478, 0xe8c7b756, 0x242070db, 0xc1bdceee, 0xf57c0faf, 0x4787c62a, 0xa8304613, 0xfd469501,
     0x698098d8, 0x8b44f7af, 0xffff5bb1, 0x895cd7be, 0x6b901122, 0xfd987193, 0xa679438e, 0x49b40821,
     0xf61e2562, 0xc040b340, 0x265e5a51, 0xe9b6c7aa, 0xd62f105d, 0x02441453, 0xd8a1e681, 0xe7d3fbc8,
     0x21e1cde6, 0xc33707d6, 0xf4d50d87, 0x455a14ed, 0xa9e3e905, 0xfcefa3f8, 0x676f02d9, 0x8d2a4c8a,
     0xfffa3942, 0x8771f681, 0x6d9d6122, 0xfde5380c, 0xa4beea44, 0x4bdecfa9, 0xf6bb4b60, 0xbebfbc70,
     0x289b7ec6, 0xeaa127fa, 0xd4ef3085, 0x04881d05, 0xd9d4d039, 0xe6db99e5, 0x1fa27cf8, 0xc4ac5665,
     0xf4292244, 0x432aff97, 0xab9423a7, 0xfc93a039, 0x655b59c3, 0x8f0ccc92, 0xffeff47d, 0x85845dd1,
     0x6fa87e4f, 0xfe2ce6e0, 0xa3014314, 0x4e0811a1, 0xf7537e82, 0xbd3af235, 0x2ad7d2bb, 0xeb86d391]"

definition md5_s :: "nat list" where
  "md5_s =
    [7, 12, 17, 22, 7, 12, 17, 22, 7, 12, 17, 22, 7, 12, 17, 22,
     5, 9, 14, 20, 5, 9, 14, 20, 5, 9, 14, 20, 5, 9, 14, 20,
     4, 11, 16, 23, 4, 11, 16, 23, 4, 11, 16, 23, 4, 11, 16, 23,
     6, 10, 15, 21, 6, 10, 15, 21, 6, 10, 15, 21, 6, 10, 15, 21]"

definition md5_pad :: "string \<Rightarrow> 32 word list" where
  "md5_pad s =
     (let n = length s; bits = (of_nat (8 * n) :: 64 word)
      in map of_char s @ [0x80] @ replicate ((119 - n mod 64) mod 64) 0
         @ map (\<lambda>i. ucast (drop_bit (8 * i) bits AND 0xff)) [0..<8])"

fun md5_words :: "32 word list \<Rightarrow> 32 word list" where
  "md5_words (b0 # b1 # b2 # b3 # bs) =
     (b0 OR push_bit 8 b1 OR push_bit 16 b2 OR push_bit 24 b3) # md5_words bs"
| "md5_words _ = []"

type_synonym md5_state = "32 word \<times> 32 word \<times> 32 word \<times> 32 word"

definition md5_step :: "32 word list \<Rightarrow> md5_state \<Rightarrow> nat \<Rightarrow> md5_state" where
  "md5_step M st i =
     (case st of (a, b, c, d) \<Rightarrow>
        let (f, g) =
              (if i < 16 then ((b AND c) OR (NOT b AND d), i)
               else if i < 32 then ((d AND b) OR (NOT d AND c), (5 * i + 1) mod 16)
               else if i < 48 then (b XOR c XOR d, (3 * i + 5) mod 16)
               else (c XOR (b OR NOT d), (7 * i) mod 16));
            f' = f + a + md5_K ! i + M ! g
        in (d, b + word_rotl (md5_s ! i) f', b, c))"

definition md5_block :: "md5_state \<Rightarrow> 32 word list \<Rightarrow> md5_state" where
  "md5_block st M =
     (case (st, foldl (md5_step M) st [0..<64]) of
        ((a0, b0, c0, d0), (a, b, c, d)) \<Rightarrow> (a0 + a, b0 + b, c0 + c, d0 + d))"

definition md5_digest :: "string \<Rightarrow> md5_state" where
  "md5_digest s =
     (let ws = md5_words (md5_pad s)
      in foldl (\<lambda>st k. md5_block st (take 16 (drop (16 * k) ws)))
           (0x67452301, 0xefcdab89, 0x98badcfe, 0x10325476) [0..<length ws div 16])"

definition hex_byte :: "nat \<Rightarrow> string" where
  "hex_byte b = [''0123456789abcdef'' ! (b div 16), ''0123456789abcdef'' ! (b mod 16)]"

definition hex_word_le :: "32 word \<Rightarrow> string" where
  "hex_word_le w = concat (map (\<lambda>i. hex_byte (unat (drop_bit (8 * i) w AND 0xff))) [0..<4])"

definition md5_hexdigest :: "string \<Rightarrow> string" where
  "md5_hexdigest s =
     (case md5_digest s of (a, b, c, d) \<Rightarrow>
        hex_word_le a @ hex_word_le b @ hex_word_le c @ hex_word_le d)"

subsection \<open>Python's \<^verbatim>\<open>repr\<close> and \<^verbatim>\<open>str\<close> of the arguments\<close>

text \<open>
  The key source is the f-string \<^verbatim>\<open>f"{func.__name__}:{args}:{sorted(kwargs.items())}"\<close>.
  It formats the tuple \<open>args\<close> and a list of (name, value) tuples, so it needs Python's
  \<^verbatim>\<open>repr\<close>. Arguments are modelled as the values below. A Python \<^verbatim>\<open>str\<close> is a sequence
  of code points; here it is a \<open>string\<close> whose \<open>char\<close>s are the code points, so the strings
  of the model are those with code points up to U+00FF. \<^verbatim>\<open>repr\<close> of a \<^verbatim>\<open>str\<close> follows
  CPython: single quotes unless the string holds a single and no double quote; the quote
  and the backslash escaped; tab, newline, carriage return as \<^verbatim>\<open>\t \n \r\<close>; every other
  code point that is not printable as \<^verbatim>\<open>\xNN\<close>. Up to U+00FF the code points that are
  not printable are those below U+0020, those from U+007F to U+00A0, and U+00AD.
\<close>

datatype pyval = PyNone | PyBool bool | PyInt int | PyStr string

fun str_nat :: "nat \<Rightarrow> string" where
  "str_nat n =
     (if n < 10 then [''0123456789'' ! n]
      else str_nat (n div 10) @ [''0123456789'' ! (n mod 10)])"

declare str_nat.simps [simp del]

definition str_int :: "int \<Rightarrow> string" where
  "str_int i = (if i < 0 then CHR ''-'' # str_nat (nat (- i)) else str_nat (nat i))"

definition repr_char :: "char \<Rightarrow> char \<Rightarrow> string" where
  "repr_char quote ch =
     (if ch = quote \<or> ch = CHR 0x5C then [CHR 0x5C, ch]
      else if ch = CHR 0x09 then [CHR 0x5C, CHR ''t'']
      else if ch = CHR 0x0A then [CHR 0x5C, CHR ''n'']
      else if ch = CHR 0x0D then [CHR 0x5C, CHR ''r'']
      else if (of_char ch :: nat) < 32 \<or> (127 \<le> (of_char ch :: nat) \<and> (of_char ch :: nat) \<le> 160)
              \<or> ch = CHR 0xAD
        then [CHR 0x5C, CHR ''x''] @ hex_byte (of_char ch)
      else [ch])"

definition repr_str :: "string \<Rightarrow> string" where
  "repr_str s =
     (let quote = (if CHR 0x27 \<in> set s \<and> CHR 0x22 \<notin> set s then CHR 0x22 else CHR 0x27)
      in [quote] @ concat (map (repr_char quote) s) @ [quote])"

fun repr :: "pyval \<Rightarrow> string" where
  "repr PyNone = ''None''"
| "repr (PyBool b) = (if b then ''True'' else ''False'')"
| "repr (PyInt i) = str_int i"
| "repr (PyStr s) = repr_str s"

fun join :: "string \<Rightarrow> string list \<Rightarrow> string" where
  "join sep [] = []"
| "join sep [x] = x"
| "join sep (x # y # ys) = x @ sep @ join sep (y # ys)"

definition str_tuple :: "pyval list \<Rightarrow> string" where
  "str_tuple xs =
     (case xs of
        [x] \<Rightarrow> ''('' @ repr x @ '',)''
      | _ \<Rightarrow> ''('' @ join '', '' (map repr xs) @ '')'')"

definition repr_item :: "string \<times> pyval \<Rightarrow> string" where
  "repr_item kv = ''('' @ repr_str (fst kv) @ '', '' @ repr (snd kv) @ '')''"

definition str_items :: "(string \<times> pyval) list \<Rightarrow> string" where
  "str_items kvs = ''['' @ join '', '' (map repr_item kvs) @ '']''"

text \<open>
  \<^verbatim>\<open>kwargs\<close> is a dict: an association list in insertion order whose keys are distinct.
  \<^verbatim>\<open>sorted(kwargs.items())\<close> compares the (name, value) tuples; the names of a dict differ,
  so the order of the names, which compares code points, decides every comparison.
\<close>

definition sorted_items :: "(string \<times> pyval) list \<Rightarrow> (string \<times> pyval) list" where
  "sorted_items kwargs = sort_key fst kwargs"

subsection \<open>\<^verbatim>\<open>def cached(ttl)\<close>: the memoizing decorator\<close>

text \<open>
  A wrapped function is a Python object: \<open>func_id\<close> is its identity, \<open>func_name\<close> its
  \<^verbatim>\<open>__name__\<close>, and \<open>func_body\<close> what awaiting a call does: it reads and changes the world
  outside the cache (\<open>'w\<close>) and either raises (\<open>Inl\<close>) or returns a value (\<open>Inr\<close>).
  The body does not touch the cache.
\<close>

record ('e, 'v, 'w) pyfunc =
  func_id :: nat
  func_name :: string
  func_body :: "pyval list \<Rightarrow> (string \<times> pyval) list \<Rightarrow> 'w \<Rightarrow> ('e + 'v option) \<times> 'w"

text \<open>
  The state of the program: the module's global \<^verbatim>\<open>cache\<close>, the world the wrapped
  functions act on, and a count of the invocations of wrapped functions.
\<close>

record ('v, 'w) env =
  cache :: "'v InMemoryCache"
  world :: 'w
  calls :: nat

definition key_source :: "('e, 'v, 'w) pyfunc \<Rightarrow> pyval list \<Rightarrow> (string \<times> pyval) list \<Rightarrow> string" where
  "key_source func args kwargs =
     func_name func @ '':'' @ str_tuple args @ '':'' @ str_items (sorted_items kwargs)"

text \<open>
  \<^verbatim>\<open>key_source.encode()\<close> is the UTF-8 encoding: a code point below U+0080 is one byte,
  one from U+0080 to U+00FF is two bytes.
\<close>

definition encode_char :: "char \<Rightarrow> string" where
  "encode_char ch =
     (let n = (of_char ch :: nat)
      in if n < 128 then [ch] else [char_of (192 + n div 64), char_of (128 + n mod 64)])"

definition encode :: "string \<Rightarrow> string" where
  "encode s = concat (map encode_char s)"

definition cache_key :: "('e, 'v, 'w) pyfunc \<Rightarrow> pyval list \<Rightarrow> (string \<times> pyval) list \<Rightarrow> string" where
  "cache_key func args kwargs = md5_hexdigest (encode (key_source func args kwargs))"

text \<open>
  \<^verbatim>\<open>wrapper(*args, **kwargs)\<close> of \<^verbatim>\<open>cached(ttl)(func)\<close>. The clock is read by \<^verbatim>\<open>cache.get\<close>
  (\<open>t_get\<close>) and, after the wrapped function has returned, by \<^verbatim>\<open>cache.set\<close> (\<open>t_set\<close>).
  This is one call run from its start to its end, with no other call in between.
\<close>

definition wrapper ::
  "int \<Rightarrow> ('e, 'v, 'w) pyfunc \<Rightarrow> real \<Rightarrow> real \<Rightarrow> pyval list \<Rightarrow> (string \<times> pyval) list \<Rightarrow>
   ('v, 'w) env \<Rightarrow> ('e + 'v option) \<times> ('v, 'w) env" where
  "wrapper ttl func t_get t_set args kwargs s =
     (let k = cache_key func args kwargs;
          (cached_result, c) = InMemoryCache_get t_get k (cache s)
      in if cached_result \<noteq> None then (Inr cached_result, s\<lparr>cache := c\<rparr>)
         else
           (case func_body func args kwargs (world s) of
              (Inl exn, w) \<Rightarrow> (Inl exn, s\<lparr>cache := c, world := w, calls := calls s + 1\<rparr>)
            | (Inr result, w) \<Rightarrow>
                (Inr result,
                 s\<lparr>cache := InMemoryCache_set t_set k result ttl c, world := w,
                   calls := calls s + 1\<rparr>)))"

text \<open>
  The wrapper runs without interruption up to the \<^verbatim>\<open>await\<close> and again from the return of
  the wrapped function on; while it awaits, other calls may run. Its two parts are the
  lookup and, after a miss, the invocation followed by \<^verbatim>\<open>cache.set\<close>. Calling them one
  after the other is \<open>wrapper\<close> (lemma \<open>wrapper_phases\<close> below).
\<close>

definition wrapper_lookup ::
  "('e, 'v, 'w) pyfunc \<Rightarrow> real \<Rightarrow> pyval list \<Rightarrow> (string \<times> pyval) list \<Rightarrow> ('v, 'w) env \<Rightarrow>
   'v option \<times> ('v, 'w) env" where
  "wrapper_lookup func t_get args kwargs s =
     (let (cached_result, c) = InMemoryCache_get t_get (cache_key func args kwargs) (cache s)
      in (cached_result, s\<lparr>cache := c\<rparr>))"

definition wrapper_resume ::
  "int \<Rightarrow> ('e, 'v, 'w) pyfunc \<Rightarrow> real \<Rightarrow> pyval list \<Rightarrow> (string \<times> pyval) list \<Rightarrow> ('v, 'w) env \<Rightarrow>
   ('e + 'v option) \<times> ('v, 'w) env" where
  "wrapper_resume ttl func t_set args kwargs s =
     (case func_body func args kwargs (world s) of
        (Inl exn, w) \<Rightarrow> (Inl exn, s\<lparr>world := w, calls := calls s + 1\<rparr>)
      | (Inr result, w) \<Rightarrow>
          (Inr result,
           s\<lparr>cache := InMemoryCache_set t_set (cache_key func args kwargs) result ttl (cache s),
             world := w, calls := calls s + 1\<rparr>))"

section \<open>Chapters 14 and 15: tokens and the authorization chain\<close>

subsection \<open>Signed tokens\<close>

text \<open>
  A claims dict is an association list from claim names to JSON values. A \<^verbatim>\<open>datetime\<close> is
  an integer number of microseconds since the epoch and a \<^verbatim>\<open>timedelta\<close> an integer number
  of microseconds, which is their resolution in Python.
\<close>

datatype jval = JNull | JStr string | JInt int | JList "jval list"

type_synonym claims = "(string \<times> jval) list"

definition timedelta_minutes :: "int \<Rightarrow> int" where
  "timedelta_minutes m = m * 60 * 1000000"

text \<open>
  A token is a string given by the client. Either it has the form of a signed token: an
  algorithm name, a claims dict and a signature, where the signature is the message
  authentication code of some claims under some key; or it is any other string.
\<close>

datatype mac = Mac string string claims

datatype token = JWS string claims mac | Malformed string

text \<open>
  The ways in which decoding fails. All of them are instances of \<^verbatim>\<open>JWTError\<close>, the one
  exception class of the library that the source names.
\<close>

datatype JWTError = ExpiredSignature | SignatureMismatch | MalformedToken

text \<open>
  Modelled from the spec: \<^verbatim>\<open>jwt.encode\<close> and \<^verbatim>\<open>jwt.decode\<close> of the library python-jose,
  which the repository imports and does not contain. "issue: serializes claims with an
  expiry field, signs with a symmetric secret, returns an opaque string. verify: fails
  with InvalidToken if the signature does not match, fails with Expired if now >= expiry,
  otherwise returns the decoded Claims." The signature is symbolic: it matches when it
  was made for the same algorithm, key and claims.
\<close>

definition jwt_encode :: "claims \<Rightarrow> string \<Rightarrow> string \<Rightarrow> token" where
  "jwt_encode cl key algorithm = JWS algorithm cl (Mac algorithm key cl)"

definition jwt_decode :: "int \<Rightarrow> token \<Rightarrow> string \<Rightarrow> string list \<Rightarrow> JWTError + claims" where
  "jwt_decode now tok key algorithms =
     (case tok of
        Malformed _ \<Rightarrow> Inl MalformedToken
      | JWS alg cl sig \<Rightarrow>
          if alg \<notin> set algorithms \<or> sig \<noteq> Mac alg key cl then Inl SignatureMismatch
          else
            (case map_of cl ''exp'' of
               Some (JInt expiry) \<Rightarrow> if now \<ge> expiry then Inl ExpiredSignature else Inr cl
             | _ \<Rightarrow> Inr cl))"

subsection \<open>Chapter 15 (\<^verbatim>\<open>phase4_auth/ch15_permissions/main.py\<close>): data\<close>

definition SECRET_KEY :: string where
  "SECRET_KEY = ''09d25e094faa6ca2556c818166b7a9563b93f7099f6f0f4caa6cf63b88e8d3e7''"

definition ALGORITHM :: string where
  "ALGORITHM = ''HS256''"

definition ACCESS_TOKEN_EXPIRE_MINUTES :: int where
  "ACCESS_TOKEN_EXPIRE_MINUTES = 30"

definition HTTP_400_BAD_REQUEST :: nat where "HTTP_400_BAD_REQUEST = 400"
definition HTTP_401_UNAUTHORIZED :: nat where "HTTP_401_UNAUTHORIZED = 401"
definition HTTP_403_FORBIDDEN :: nat where "HTTP_403_FORBIDDEN = 403"

datatype Role = ADMIN | USER | VIEWER

text \<open>
  \<^verbatim>\<open>TokenData\<close> has the fields \<^verbatim>\<open>username\<close> and \<^verbatim>\<open>scopes\<close>; they are prefixed here
  because \<^verbatim>\<open>UserInDB\<close> has fields of the same names.
\<close>

record TokenData =
  td_username :: "string option"
  td_scopes :: "string list"

record UserInDB =
  username :: string
  full_name :: string
  email :: string
  role :: Role
  hashed_password :: string
  disabled :: bool
  scopes :: "string list"

text \<open>
  The \<^verbatim>\<open>detail\<close> messages of the source are Korean sentences; each is named by what it
  says. \<^verbatim>\<open>headers\<close> is \<^verbatim>\<open>None\<close> unless given.
\<close>

datatype detail =
    CredentialsNotVerified
  | UserDisabled
  | InsufficientPermission
  | RoleNotAllowed "Role list"
  | WrongUsernameOrPassword
  | TokenAuthenticationFailed
  | AccountDisabled

record HTTPException =
  status_code :: nat
  detail :: detail
  headers :: "(string \<times> string) list option"

record Token =
  access_token :: token
  token_type :: string

text \<open>The fields \<^verbatim>\<open>username\<close>, \<^verbatim>\<open>password\<close>, \<^verbatim>\<open>scopes\<close> of \<^verbatim>\<open>OAuth2PasswordRequestForm\<close>.\<close>

record OAuth2PasswordRequestForm =
  form_username :: string
  form_password :: string
  form_scopes :: "string list"

subsection \<open>Chapter 15: functions\<close>

text \<open>
  \<^verbatim>\<open>verify_password\<close> asks passlib's bcrypt context, here the parameter \<open>pwd_context\<close>:
  it tells whether a plain password matches a stored hash.
\<close>

definition verify_password :: "(string \<Rightarrow> string \<Rightarrow> bool) \<Rightarrow> string \<Rightarrow> string \<Rightarrow> bool" where
  "verify_password pwd_context plain_password hashed = pwd_context plain_password hashed"

text \<open>
  \<^verbatim>\<open>fake_users_db\<close> is a dict from user names to rows; the rows are well-formed, so
  \<^verbatim>\<open>UserInDB(**user_dict)\<close> is the row itself.
\<close>

definition get_user :: "(string \<rightharpoonup> UserInDB) \<Rightarrow> string \<Rightarrow> UserInDB option" where
  "get_user db name = (if name \<in> dom db then db name else None)"

definition authenticate_user ::
  "(string \<Rightarrow> string \<Rightarrow> bool) \<Rightarrow> (string \<rightharpoonup> UserInDB) \<Rightarrow> string \<Rightarrow> string \<Rightarrow> UserInDB option" where
  "authenticate_user pwd_context db name password =
     (case get_user db name of
        None \<Rightarrow> None
      | Some user \<Rightarrow>
          if \<not> verify_password pwd_context password (hashed_password user) then None
          else Some user)"

text \<open>
  \<^verbatim>\<open>if expires_delta:\<close> is false for \<^verbatim>\<open>None\<close> and for a \<^verbatim>\<open>timedelta\<close> of zero.
  \<^verbatim>\<open>datetime.now(timezone.utc)\<close> is the parameter \<open>now\<close>.
\<close>

definition create_access_token :: "int \<Rightarrow> claims \<Rightarrow> int option \<Rightarrow> token" where
  "create_access_token now data expires_delta =
     (let to_encode = data;
          expire =
            (case expires_delta of
               Some delta \<Rightarrow> if delta \<noteq> 0 then now + delta else now + timedelta_minutes 15
             | None \<Rightarrow> now + timedelta_minutes 15);
          to_encode = AList.update ''exp'' (JInt expire) to_encode
      in jwt_encode to_encode SECRET_KEY ALGORITHM)"

text \<open>
  \<^verbatim>\<open>payload.get(name)\<close> is \<^verbatim>\<open>None\<close> when the claim is missing and when it is JSON's
  \<^verbatim>\<open>null\<close>.
\<close>

definition payload_get :: "claims \<Rightarrow> string \<Rightarrow> jval option" where
  "payload_get payload name =
     (case map_of payload name of Some JNull \<Rightarrow> None | r \<Rightarrow> r)"

text \<open>
  \<^verbatim>\<open>TokenData(username=..., scopes=...)\<close>: pydantic accepts a \<^verbatim>\<open>str\<close> for \<^verbatim>\<open>username\<close> and
  a list of \<^verbatim>\<open>str\<close> for \<^verbatim>\<open>scopes\<close> and raises \<^verbatim>\<open>ValidationError\<close> (here \<open>None\<close>)
  otherwise.
\<close>

fun str_of :: "jval \<Rightarrow> string option" where
  "str_of (JStr s) = Some s"
| "str_of _ = None"

fun strs_of :: "jval list \<Rightarrow> string list option" where
  "strs_of [] = Some []"
| "strs_of (x # xs) =
     (case (str_of x, strs_of xs) of (Some s, Some ss) \<Rightarrow> Some (s # ss) | _ \<Rightarrow> None)"

definition TokenData_init :: "jval \<Rightarrow> jval option \<Rightarrow> TokenData option" where
  "TokenData_init name token_scopes =
     (case (str_of name, token_scopes) of
        (Some s, Some (JList xs)) \<Rightarrow>
          (case strs_of xs of
             Some ss \<Rightarrow> Some \<lparr>td_username = Some s, td_scopes = ss\<rparr>
           | None \<Rightarrow> None)
      | _ \<Rightarrow> None)"

text \<open>
  The \<^verbatim>\<open>try\<close> block of \<^verbatim>\<open>get_current_user\<close> (lines 230 to 240): decode the token, read
  \<^verbatim>\<open>sub\<close> and \<^verbatim>\<open>scopes\<close>, build the \<^verbatim>\<open>TokenData\<close>. Whatever fails, a \<^verbatim>\<open>JWTError\<close>, a
  missing subject or a \<^verbatim>\<open>ValidationError\<close>, the block raises \<open>credentials_exception\<close>.
  \<^verbatim>\<open>payload.get("scopes", [])\<close> is the empty list only when the claim is missing.
\<close>

definition verify_token :: "HTTPException \<Rightarrow> int \<Rightarrow> token \<Rightarrow> HTTPException + TokenData" where
  "verify_token credentials_exception now tok =
     (case jwt_decode now tok SECRET_KEY [ALGORITHM] of
        Inl jwt_error \<Rightarrow> Inl credentials_exception
      | Inr payload \<Rightarrow>
          (case payload_get payload ''sub'' of
             None \<Rightarrow> Inl credentials_exception
           | Some name \<Rightarrow>
               (let token_scopes =
                      (case map_of payload ''scopes'' of
                         None \<Rightarrow> Some (JList [])
                       | Some JNull \<Rightarrow> None
                       | Some v \<Rightarrow> Some v)
                in case TokenData_init name token_scopes of
                     None \<Rightarrow> Inl credentials_exception
                   | Some token_data \<Rightarrow> Inr token_data)))"

text \<open>The loop over \<^verbatim>\<open>security_scopes.scopes\<close>: the first scope that the token lacks raises.\<close>

fun require_scopes :: "HTTPException \<Rightarrow> string list \<Rightarrow> string list \<Rightarrow> HTTPException option" where
  "require_scopes exc [] token_scopes = None"
| "require_scopes exc (scope # rest) token_scopes =
     (if scope \<notin> set token_scopes then Some exc else require_scopes exc rest token_scopes)"

text \<open>
  \<^verbatim>\<open>security_scopes\<close> is given by its list \<^verbatim>\<open>scopes\<close>; \<^verbatim>\<open>scope_str\<close> is that list joined
  by spaces.
\<close>

definition authenticate_value :: "string list \<Rightarrow> string" where
  "authenticate_value security_scopes =
     (if security_scopes \<noteq> [] then ''Bearer scope='' @ [CHR 0x22] @ join '' '' security_scopes @ [CHR 0x22]
      else ''Bearer'')"

definition credentials_exception :: "string list \<Rightarrow> HTTPException" where
  "credentials_exception security_scopes =
     \<lparr>status_code = HTTP_401_UNAUTHORIZED, detail = CredentialsNotVerified,
      headers = Some [(''WWW-Authenticate'', authenticate_value security_scopes)]\<rparr>"

definition get_current_user ::
  "int \<Rightarrow> (string \<rightharpoonup> UserInDB) \<Rightarrow> string list \<Rightarrow> token \<Rightarrow> HTTPException + UserInDB" where
  "get_current_user now fake_users_db security_scopes tok =
     (case verify_token (credentials_exception security_scopes) now tok of
        Inl exc \<Rightarrow> Inl exc
      | Inr token_data \<Rightarrow>
          (case Option.bind (td_username token_data) (get_user fake_users_db) of
             None \<Rightarrow> Inl (credentials_exception security_scopes)
           | Some user \<Rightarrow>
               if disabled user then
                 Inl \<lparr>status_code = HTTP_400_BAD_REQUEST, detail = UserDisabled, headers = None\<rparr>
               else
                 (case require_scopes
                         \<lparr>status_code = HTTP_401_UNAUTHORIZED, detail = InsufficientPermission,
                          headers = Some [(''WWW-Authenticate'', authenticate_value security_scopes)]\<rparr>
                         security_scopes (td_scopes token_data) of
                    Some exc \<Rightarrow> Inl exc
                  | None \<Rightarrow> Inr user)))"

definition get_current_active_user ::
  "int \<Rightarrow> (string \<rightharpoonup> UserInDB) \<Rightarrow> token \<Rightarrow> HTTPException + UserInDB" where
  "get_current_active_user now fake_users_db tok = get_current_user now fake_users_db [] tok"

definition role_required ::
  "Role list \<Rightarrow> int \<Rightarrow> (string \<rightharpoonup> UserInDB) \<Rightarrow> token \<Rightarrow> HTTPException + UserInDB" where
  "role_required allowed_roles now fake_users_db tok =
     (case get_current_user now fake_users_db [] tok of
        Inl exc \<Rightarrow> Inl exc
      | Inr current_user \<Rightarrow>
          if role current_user \<notin> set allowed_roles then
            Inl \<lparr>status_code = HTTP_403_FORBIDDEN, detail = RoleNotAllowed allowed_roles,
                 headers = None\<rparr>
          else Inr current_user)"

definition login_for_access_token ::
  "(string \<Rightarrow> string \<Rightarrow> bool) \<Rightarrow> int \<Rightarrow> (string \<rightharpoonup> UserInDB) \<Rightarrow> OAuth2PasswordRequestForm \<Rightarrow>
   HTTPException + Token" where
  "login_for_access_token pwd_context now fake_users_db form_data =
     (case authenticate_user pwd_context fake_users_db (form_username form_data)
             (form_password form_data) of
        None \<Rightarrow>
          Inl \<lparr>status_code = HTTP_401_UNAUTHORIZED, detail = WrongUsernameOrPassword,
               headers = Some [(''WWW-Authenticate'', ''Bearer'')]\<rparr>
      | Some user \<Rightarrow>
          (let granted_scopes = filter (\<lambda>scope. scope \<in> set (scopes user)) (form_scopes form_data);
               access_token_expires = timedelta_minutes ACCESS_TOKEN_EXPIRE_MINUTES;
               tok = create_access_token now
                       [(''sub'', JStr (username user)),
                        (''scopes'', JList (map JStr granted_scopes))]
                       (Some access_token_expires)
           in Inr \<lparr>access_token = tok, token_type = ''bearer''\<rparr>))"

subsection \<open>Chapter 14 (\<^verbatim>\<open>phase4_auth/ch14_jwt_auth/auth.py\<close>)\<close>

text \<open>
  Chapter 14 has its own secret key, user model and dependencies; their names carry the
  suffix \<open>_ch14\<close>. Its \<^verbatim>\<open>try\<close> block catches \<^verbatim>\<open>JWTError\<close> only, so a \<^verbatim>\<open>ValidationError\<close>
  of \<^verbatim>\<open>TokenData(username=username)\<close> is not turned into an \<^verbatim>\<open>HTTPException\<close>.
\<close>

definition SECRET_KEY_ch14 :: string where
  "SECRET_KEY_ch14 = ''e3b0c44298fc1c149afbf4c8996fb92427ae41e4649b934ca495991b7852b855''"

record UserInDB_ch14 =
  username_ch14 :: string
  email_ch14 :: "string option"
  disabled_ch14 :: bool
  hashed_password_ch14 :: string

datatype exception_ch14 = HTTP HTTPException | ValidationError

definition get_user_ch14 :: "(string \<rightharpoonup> UserInDB_ch14) \<Rightarrow> string \<Rightarrow> UserInDB_ch14 option" where
  "get_user_ch14 db name = (if name \<in> dom db then db name else None)"

definition credentials_exception_ch14 :: HTTPException where
  "credentials_exception_ch14 =
     \<lparr>status_code = HTTP_401_UNAUTHORIZED, detail = TokenAuthenticationFailed,
      headers = Some [(''WWW-Authenticate'', ''Bearer'')]\<rparr>"

definition get_current_user_ch14 ::
  "int \<Rightarrow> (string \<rightharpoonup> UserInDB_ch14) \<Rightarrow> token \<Rightarrow> exception_ch14 + UserInDB_ch14" where
  "get_current_user_ch14 now fake_users_db tok =
     (case jwt_decode now tok SECRET_KEY_ch14 [ALGORITHM] of
        Inl jwt_error \<Rightarrow> Inl (HTTP credentials_exception_ch14)
      | Inr payload \<Rightarrow>
          (case payload_get payload ''sub'' of
             None \<Rightarrow> Inl (HTTP credentials_exception_ch14)
           | Some name \<Rightarrow>
               (case str_of name of
                  None \<Rightarrow> Inl ValidationError
                | Some token_data_username \<Rightarrow>
                    (case get_user_ch14 fake_users_db token_data_username of
                       None \<Rightarrow> Inl (HTTP credentials_exception_ch14)
                     | Some user \<Rightarrow> Inr user))))"

definition get_current_active_user_ch14 ::
  "int \<Rightarrow> (string \<rightharpoonup> UserInDB_ch14) \<Rightarrow> token \<Rightarrow> exception_ch14 + UserInDB_ch14" where
  "get_current_active_user_ch14 now fake_users_db tok =
     (case get_current_user_ch14 now fake_users_db tok of
        Inl exc \<Rightarrow> Inl exc
      | Inr current_user \<Rightarrow>
          if disabled_ch14 current_user then
            Inl (HTTP \<lparr>status_code = HTTP_400_BAD_REQUEST, detail = AccountDisabled,
                       headers = None\<rparr>)
          else Inr current_user)"

section \<open>Example inputs\<close>

text \<open>Wrapped functions and states at which the theorems below are evaluated.\<close>

definition get_items_a :: "(string, int, unit) pyfunc" where
  "get_items_a = \<lparr>func_id = 1, func_name = ''get_items'', func_body = (\<lambda>a k w. (Inr (Some 1), w))\<rparr>"

definition get_items_b :: "(string, int, unit) pyfunc" where
  "get_items_b = \<lparr>func_id = 2, func_name = ''get_items'', func_body = (\<lambda>a k w. (Inr (Some 2), w))\<rparr>"

definition returns_none :: "(string, int, unit) pyfunc" where
  "returns_none = \<lparr>func_id = 3, func_name = ''log_visit'', func_body = (\<lambda>a k w. (Inr None, w))\<rparr>"


definition returns_value :: "(string, int, unit) pyfunc" where
  "returns_value = \<lparr>func_id = 5, func_name = ''answer'', func_body = (\<lambda>a k w. (Inr (Some 42), w))\<rparr>"


definition fresh_env :: "'w \<Rightarrow> ('v, 'w) env" where
  "fresh_env w = \<lparr>cache = InMemoryCache_init, world = w, calls = 0\<rparr>"

definition alice :: UserInDB where
  "alice = \<lparr>username = ''alice'', full_name = ''Alice'', email = ''alice@example.com'',
            role = USER, hashed_password = ''$2b$12$alice'', disabled = False,
            scopes = [''items:read'', ''items:write'']\<rparr>"

definition bob :: UserInDB where
  "bob = \<lparr>username = ''bob'', full_name = ''Bob'', email = ''bob@example.com'',
          role = USER, hashed_password = ''$2b$12$bob'', disabled = True,
          scopes = [''items:read'']\<rparr>"

definition users_db :: "string \<rightharpoonup> UserInDB" where
  "users_db = [''alice'' \<mapsto> alice, ''bob'' \<mapsto> bob]"

text \<open>A password context in which the hash of a password is \<^verbatim>\<open>$2b$12$\<close> followed by it.\<close>

definition toy_pwd_context :: "string \<Rightarrow> string \<Rightarrow> bool" where
  "toy_pwd_context plain hashed = (hashed = ''$2b$12$'' @ plain)"

definition carol_ch14 :: UserInDB_ch14 where
  "carol_ch14 = \<lparr>username_ch14 = ''carol'', email_ch14 = None, disabled_ch14 = True,
                 hashed_password_ch14 = ''$2b$12$carol''\<rparr>"

definition users_db_ch14 :: "string \<rightharpoonup> UserInDB_ch14" where
  "users_db_ch14 = [''carol'' \<mapsto> carol_ch14]"

text \<open>
  Tokens issued at time 0 for 30 minutes (1800000000 microseconds), and a token whose
  claims were changed after signing.
\<close>

definition alice_read_token :: token where
  "alice_read_token =
     create_access_token 0 [(''sub'', JStr ''alice''), (''scopes'', JList [JStr ''items:read''])]
       (Some (timedelta_minutes 30))"

definition bob_token :: token where
  "bob_token =
     create_access_token 0 [(''sub'', JStr ''bob''), (''scopes'', JList [JStr ''items:read''])]
       (Some (timedelta_minutes 30))"

definition tampered_token :: token where
  "tampered_token =
     JWS ALGORITHM
       [(''sub'', JStr ''alice''), (''scopes'', JList [JStr ''admin'']), (''exp'', JInt 1800000000)]
       (Mac ALGORITHM SECRET_KEY
          [(''sub'', JStr ''alice''), (''scopes'', JList [JStr ''items:read'']),
           (''exp'', JInt 1800000000)])"

text \<open>A signed token without subject, and one whose \<^verbatim>\<open>scopes\<close> claim is a string.\<close>

definition no_subject_token :: token where
  "no_subject_token =
     create_access_token 0 [(''scopes'', JList [JStr ''items:read''])] (Some (timedelta_minutes 30))"

definition wrong_type_token :: token where
  "wrong_type_token =
     create_access_token 0 [(''sub'', JStr ''alice''), (''scopes'', JStr ''items:read'')]
       (Some (timedelta_minutes 30))"

definition carol_token_ch14 :: token where
  "carol_token_ch14 =
     jwt_encode [(''sub'', JStr ''carol''), (''exp'', JInt 1800000000)] SECRET_KEY_ch14 ALGORITHM"

section \<open>Properties of the cache store\<close>

text \<open>
  Claim C1. For every key, \<^verbatim>\<open>get(key)\<close> returns the stored value exactly when an entry
  for the key is present and the current time is strictly before its \<^verbatim>\<open>expires_at\<close>, and
  then increments the hit counter and nothing else; otherwise it returns \<^verbatim>\<open>None\<close> (absent)
  and increments the miss counter, and an entry that was present but expired is removed.
  Every other entry is left as it was.
\<close>

theorem get_ttl_contract:
  "InMemoryCache_get now key c =
     (if \<exists>val expires_at. store c key = Some (val, expires_at) \<and> now < expires_at
      then (fst (the (store c key)), c\<lparr>hits := hits c + 1\<rparr>)
      else (None, c\<lparr>store := (store c)(key := None), misses := misses c + 1\<rparr>))"
  by (cases "store c key") (auto simp: InMemoryCache_get_def fun_upd_idem)

section \<open>Properties of the memoizing decorator\<close>

subsection \<open>Key derivation\<close>

text \<open>The digest is a string of 32 hexadecimal digits.\<close>

lemma hex_word_le_length: "length (hex_word_le w) = 8"
  by (simp add: hex_word_le_def hex_byte_def length_concat comp_def sum_list_triv)

lemma md5_hexdigest_length: "length (md5_hexdigest s) = 32"
  by (cases "md5_digest s") (simp add: md5_hexdigest_def hex_word_le_length)

text \<open>Keyword arguments that are equal as dicts sort to the same list of items.\<close>

lemma sorted_items_dict_eq:
  assumes "distinct (map fst kw1)" "distinct (map fst kw2)" "map_of kw1 = map_of kw2"
  shows "sorted_items kw1 = sorted_items kw2"
proof -
  have s: "set kw1 = set kw2"
    using assms by (simp add: map_of_inject_set)
  have inj: "inj_on fst (set kw1 \<union> set kw2)"
    using assms(1) s by (simp add: distinct_map)
  show ?thesis
    unfolding sorted_items_def
    by (rule map_sorted_distinct_set_unique [OF _ _ _ _ _ _, where f = fst])
       (use inj s assms in \<open>auto simp: distinct_map inj_on_def\<close>)
qed

text \<open>
  Claim C4, as stated, fails: the key names the wrapped function by \<^verbatim>\<open>func.__name__\<close> only,
  so two distinct function objects with the same \<^verbatim>\<open>__name__\<close> (two modules that each
  define \<^verbatim>\<open>get_items\<close>, say) derive the same key for the same arguments.
\<close>

theorem cache_key_collision:
  "get_items_a \<noteq> get_items_b \<and>
   cache_key get_items_a [PyInt 7] [] = cache_key get_items_b [PyInt 7] []"
  by (simp add: cache_key_def key_source_def get_items_a_def get_items_b_def)

text \<open>
  Claim C4, amended. The key is a function of the wrapped function's \<^verbatim>\<open>__name__\<close>, the
  positional arguments and the keyword arguments as a dict: two calls whose functions have
  the same \<^verbatim>\<open>__name__\<close>, with equal positional arguments and keyword arguments that are
  equal as dicts (in whatever order they were passed), derive the same key.
\<close>

theorem cache_key_deterministic:
  assumes "func_name f = func_name g"
    and "distinct (map fst kw1)" and "distinct (map fst kw2)" and "map_of kw1 = map_of kw2"
  shows "cache_key f args kw1 = cache_key g args kw2"
  using assms(1) sorted_items_dict_eq [OF assms(2-4)]
  by (simp add: cache_key_def key_source_def)

theorem cache_key_deterministic_witness:
  "cache_key get_items_a [PyInt 7] [(''page'', PyInt 2), (''limit'', PyInt 10)]
   = cache_key get_items_b [PyInt 7] [(''limit'', PyInt 10), (''page'', PyInt 2)]"
  by (rule cache_key_deterministic) (simp_all add: fun_eq_iff get_items_a_def get_items_b_def)

subsection \<open>Hits and misses of the wrapper\<close>

lemma wrapper_miss:
  assumes "fst (InMemoryCache_get t (cache_key f args kwargs) (cache s)) = None"
  shows "wrapper ttl f t t' args kwargs s =
     (let k = cache_key f args kwargs; c = snd (InMemoryCache_get t k (cache s))
      in case func_body f args kwargs (world s) of
           (Inl exn, w) \<Rightarrow> (Inl exn, s\<lparr>cache := c, world := w, calls := calls s + 1\<rparr>)
         | (Inr result, w) \<Rightarrow>
             (Inr result, s\<lparr>cache := InMemoryCache_set t' k result ttl c, world := w,
                calls := calls s + 1\<rparr>))"
  using assms
  by (cases "InMemoryCache_get t (cache_key f args kwargs) (cache s)")
     (auto simp: wrapper_def Let_def split: prod.splits sum.splits)

lemma wrapper_hit:
  assumes "fst (InMemoryCache_get t (cache_key f args kwargs) (cache s)) = Some v"
  shows "wrapper ttl f t t' args kwargs s =
     (Inr (Some v), s\<lparr>cache := snd (InMemoryCache_get t (cache_key f args kwargs) (cache s))\<rparr>)"
  using assms
  by (cases "InMemoryCache_get t (cache_key f args kwargs) (cache s)")
     (auto simp: wrapper_def Let_def split: prod.splits sum.splits)

lemma get_fresh:
  "store c k = Some (val, e) \<Longrightarrow> t < e \<Longrightarrow>
     InMemoryCache_get t k c = (val, c\<lparr>hits := hits c + 1\<rparr>)"
  by (simp add: InMemoryCache_get_def)

text \<open>
  Claim C5, as stated, fails for a wrapped function that returns \<^verbatim>\<open>None\<close>: the wrapper
  takes the cached \<^verbatim>\<open>None\<close> for a miss, and two calls within the TTL invoke the
  function twice.
\<close>

theorem memoized_none_invoked_twice:
  "calls (snd (wrapper 30 returns_none 1 1 [PyInt 7] []
       (snd (wrapper 30 returns_none 0 0 [PyInt 7] [] (fresh_env ()))))) = 2"
  by (simp add: wrapper_def InMemoryCache_get_def InMemoryCache_set_def InMemoryCache_init_def
      fresh_env_def returns_none_def Let_def)


text \<open>The wrapper is its lookup followed, after a miss, by the invocation and the store.\<close>

lemma wrapper_phases:
  "wrapper ttl f t t' args kwargs s =
     (case wrapper_lookup f t args kwargs s of
        (cached_result, s1) \<Rightarrow>
          if cached_result \<noteq> None then (Inr cached_result, s1)
          else wrapper_resume ttl f t' args kwargs s1)"
  by (cases "InMemoryCache_get t (cache_key f args kwargs) (cache s)")
     (auto simp: wrapper_def wrapper_lookup_def wrapper_resume_def Let_def
           split: prod.splits sum.splits)

text \<open>
  Two calls that overlap both miss: when the second call looks the key up while the first
  still awaits the wrapped function, nothing has been stored yet, and both invoke the
  function.
\<close>

lemma overlapping_calls_invoke_twice:
  "fst (wrapper_lookup returns_value 0 [PyInt 7] [] (fresh_env ())) = None \<and>
   fst (wrapper_lookup returns_value 1 [PyInt 7] []
          (snd (wrapper_lookup returns_value 0 [PyInt 7] [] (fresh_env ())))) = None \<and>
   calls (snd (wrapper_resume 30 returns_value 3 [PyInt 7] []
     (snd (wrapper_resume 30 returns_value 2 [PyInt 7] []
       (snd (wrapper_lookup returns_value 1 [PyInt 7] []
         (snd (wrapper_lookup returns_value 0 [PyInt 7] [] (fresh_env ()))))))))) = 2"
  by (simp add: wrapper_lookup_def wrapper_resume_def InMemoryCache_get_def InMemoryCache_set_def
      InMemoryCache_init_def fresh_env_def returns_value_def Let_def)

text \<open>
  Claim C5, amended. Take two calls with identical arguments made one after the other: the
  second call looks the key up after the first call has stored its result and returned,
  and before \<open>expires_at\<close> (the time of the first call's \<^verbatim>\<open>set\<close> plus the TTL). When the
  first call misses and the wrapped function returns a value other than \<^verbatim>\<open>None\<close>, the
  function is invoked exactly once: the second call returns the cached value and changes
  nothing but the hit counter.
\<close>

theorem memoized_second_call_cached:
  assumes miss: "fst (InMemoryCache_get t1 (cache_key f args kwargs) (cache s)) = None"
    and ret: "func_body f args kwargs (world s) = (Inr (Some v), w)"
    and sequential: "t1 \<le> t1'" "t1' \<le> t2"
    and within: "t2 < t1' + of_int ttl"
  shows "\<exists>s1. wrapper ttl f t1 t1' args kwargs s = (Inr (Some v), s1) \<and> calls s1 = calls s + 1 \<and>
           wrapper ttl f t2 t2' args kwargs s1 =
             (Inr (Some v), s1\<lparr>cache := (cache s1)\<lparr>hits := hits (cache s1) + 1\<rparr>\<rparr>)"
proof -
  let ?k = "cache_key f args kwargs"
  let ?c = "snd (InMemoryCache_get t1 ?k (cache s))"
  let ?s1 = "s\<lparr>cache := InMemoryCache_set t1' ?k (Some v) ttl ?c, world := w, calls := calls s + 1\<rparr>"
  have first: "wrapper ttl f t1 t1' args kwargs s = (Inr (Some v), ?s1)"
    using wrapper_miss [OF miss] ret by (simp add: Let_def)
  have "store (cache ?s1) ?k = Some (Some v, t1' + of_int ttl)"
    by (simp add: InMemoryCache_set_def)
  then have g: "InMemoryCache_get t2 ?k (cache ?s1) = (Some v, (cache ?s1)\<lparr>hits := hits (cache ?s1) + 1\<rparr>)"
    using within by (rule get_fresh)
  have "wrapper ttl f t2 t2' args kwargs ?s1 =
          (Inr (Some v), ?s1\<lparr>cache := (cache ?s1)\<lparr>hits := hits (cache ?s1) + 1\<rparr>\<rparr>)"
    using wrapper_hit [of t2 f args kwargs ?s1 v ttl t2'] g by simp
  with first show ?thesis by simp
qed

theorem memoized_second_call_cached_witness:
  "\<exists>s1. wrapper 30 returns_value 0 1 [PyInt 7] [] (fresh_env ()) = (Inr (Some 42), s1) \<and>
      calls s1 = 1 \<and>
      wrapper 30 returns_value 2 3 [PyInt 7] [] s1 =
        (Inr (Some 42), s1\<lparr>cache := (cache s1)\<lparr>hits := hits (cache s1) + 1\<rparr>\<rparr>)"
  using memoized_second_call_cached
    [where ?t1.0 = 0 and f = returns_value and args = "[PyInt 7]" and kwargs = "[]"
       and s = "fresh_env ()" and v = 42 and w = "()" and ?t1' = 1 and ?t2.0 = 2 and ttl = 30
       and ?t2' = 3]
  by (simp add: InMemoryCache_get_def InMemoryCache_init_def fresh_env_def returns_value_def)




text \<open>
  Claim C10, as stated, fails in its last part: once a \<^verbatim>\<open>None\<close> result has been stored,
  the lookup of the next call within the TTL finds an unexpired entry, so \<^verbatim>\<open>get\<close>
  increments the hit counter, not the miss counter (and the wrapper still re-invokes the
  function).
\<close>

theorem none_lookup_counts_hit:
  "misses (cache (snd (wrapper 30 returns_none 1 1 [PyInt 7] []
       (snd (wrapper 30 returns_none 0 0 [PyInt 7] [] (fresh_env ()))))))
   = misses (cache (snd (wrapper 30 returns_none 0 0 [PyInt 7] [] (fresh_env ()))))
   \<and> hits (cache (snd (wrapper 30 returns_none 1 1 [PyInt 7] []
       (snd (wrapper 30 returns_none 0 0 [PyInt 7] [] (fresh_env ()))))))
   = hits (cache (snd (wrapper 30 returns_none 0 0 [PyInt 7] [] (fresh_env ())))) + 1"
  by (simp add: wrapper_def InMemoryCache_get_def InMemoryCache_set_def InMemoryCache_init_def
      fresh_env_def returns_none_def Let_def)

text \<open>
  Claim C10, amended. \<^verbatim>\<open>get\<close> returns \<^verbatim>\<open>None\<close> when the key is absent, when its entry
  has expired and when the stored value is \<^verbatim>\<open>None\<close>. So whenever the wrapped function
  returns \<^verbatim>\<open>None\<close> and the cache holds no unexpired value other than \<^verbatim>\<open>None\<close> under the
  derived key, the wrapper invokes the function and stores \<^verbatim>\<open>None\<close> again, which leaves
  the next call within the TTL in the same situation. The lookup counts as a hit when the
  stored \<^verbatim>\<open>None\<close> is unexpired and as a miss otherwise.
\<close>

theorem none_result_reinvoked:
  assumes body: "func_body f args kwargs (world s) = (Inr None, w)"
    and no_value: "\<forall>v e. store (cache s) (cache_key f args kwargs) = Some (v, e) \<and> t < e \<longrightarrow> v = None"
  shows "fst (InMemoryCache_get t (cache_key f args kwargs) (cache s)) = None \<and>
         (\<exists>s'. wrapper ttl f t t' args kwargs s = (Inr None, s') \<and>
            calls s' = calls s + 1 \<and>
            store (cache s') (cache_key f args kwargs) = Some (None, t' + of_int ttl) \<and>
            (if \<exists>e. store (cache s) (cache_key f args kwargs) = Some (None, e) \<and> t < e
             then hits (cache s') = hits (cache s) + 1 \<and> misses (cache s') = misses (cache s)
             else hits (cache s') = hits (cache s) \<and> misses (cache s') = misses (cache s) + 1))"
proof -
  let ?k = "cache_key f args kwargs"
  let ?c = "snd (InMemoryCache_get t ?k (cache s))"
  have miss: "fst (InMemoryCache_get t ?k (cache s)) = None"
    using no_value by (auto simp: InMemoryCache_get_def split: option.splits)
  have w: "wrapper ttl f t t' args kwargs s =
      (Inr None, s\<lparr>cache := InMemoryCache_set t' ?k None ttl ?c, world := w, calls := calls s + 1\<rparr>)"
    using wrapper_miss [OF miss] body by (simp add: Let_def)
  have st: "store (InMemoryCache_set t' ?k None ttl ?c) ?k = Some (None, t' + of_int ttl)"
    by (simp add: InMemoryCache_set_def)
  have cnt: "if \<exists>e. store (cache s) ?k = Some (None, e) \<and> t < e
     then hits (InMemoryCache_set t' ?k None ttl ?c) = hits (cache s) + 1
        \<and> misses (InMemoryCache_set t' ?k None ttl ?c) = misses (cache s)
     else hits (InMemoryCache_set t' ?k None ttl ?c) = hits (cache s)
        \<and> misses (InMemoryCache_set t' ?k None ttl ?c) = misses (cache s) + 1"
    using no_value
    by (cases "store (cache s) ?k")
       (auto simp: InMemoryCache_get_def InMemoryCache_set_def)
  show ?thesis using miss w st cnt by simp
qed

theorem none_result_reinvoked_witness:
  "\<exists>s'. wrapper 30 returns_none 1 1 [PyInt 7] []
           (snd (wrapper 30 returns_none 0 0 [PyInt 7] [] (fresh_env ()))) = (Inr None, s') \<and>
      calls s' = 2 \<and> hits (cache s') = 1 \<and> misses (cache s') = 1"
  using none_result_reinvoked
    [of returns_none "[PyInt 7]" "[]" "snd (wrapper 30 returns_none 0 0 [PyInt 7] [] (fresh_env ()))"
        "()" 1 30 1]
  by (simp add: wrapper_def InMemoryCache_get_def InMemoryCache_set_def InMemoryCache_init_def
      fresh_env_def returns_none_def Let_def)

section \<open>Properties of the tokens and of the authorization chain\<close>

lemma strs_of_map_JStr: "strs_of (map JStr ss) = Some ss"
  by (induction ss) simp_all

lemma require_scopes_iff:
  "require_scopes exc required token_scopes =
     (if set required \<subseteq> set token_scopes then None else Some exc)"
  by (induction required) auto

lemma decode_created:
  assumes "expires_delta = Some ttl" "0 < ttl" "now' < now + ttl"
  shows "jwt_decode now' (create_access_token now data expires_delta) SECRET_KEY [ALGORITHM]
           = Inr (AList.update ''exp'' (JInt (now + ttl)) data)"
  using assms
  by (simp add: create_access_token_def jwt_encode_def jwt_decode_def update_conv' Let_def)

text \<open>
  Claim C7. For every claims dict with a subject and scopes and every ttl > 0, a token
  issued by \<^verbatim>\<open>create_access_token\<close> and verified before its expiry (at the time of issue,
  say) by the decoding block of \<^verbatim>\<open>get_current_user\<close>, under the same secret, yields the
  subject and the scopes that were put in.
\<close>

theorem token_round_trip:
  assumes sub: "map_of data ''sub'' = Some (JStr subject)"
    and scs: "map_of data ''scopes'' = Some (JList (map JStr scs))"
    and ttl: "0 < ttl" and before: "now' < now + ttl"
  shows "verify_token exc now' (create_access_token now data (Some ttl))
           = Inr \<lparr>td_username = Some subject, td_scopes = scs\<rparr>"
  using sub scs decode_created [OF refl ttl before, of data]
  by (simp add: verify_token_def payload_get_def update_conv' TokenData_init_def strs_of_map_JStr)

theorem token_round_trip_witness:
  "verify_token (credentials_exception []) 0 alice_read_token
     = Inr \<lparr>td_username = Some ''alice'', td_scopes = [''items:read'']\<rparr>"
  unfolding alice_read_token_def
  using token_round_trip [of "[(''sub'', JStr ''alice''), (''scopes'', JList [JStr ''items:read''])]"
      "''alice''" "[''items:read'']" "timedelta_minutes 30" 0 0 "credentials_exception []"]
  by (simp add: timedelta_minutes_def)

text \<open>
  Claim C8, as stated, fails: the decoding block catches every \<^verbatim>\<open>JWTError\<close> alike, so a
  token verified an hour after its issue, half an hour past its expiry, and a token with a
  wrong signature raise one and the same exception, and the caller cannot tell the two
  failures apart.
\<close>

theorem expired_and_tampered_same_error:
  "jwt_decode 3600000000 alice_read_token SECRET_KEY [ALGORITHM] = Inl ExpiredSignature \<and>
   jwt_decode 3600000000 tampered_token SECRET_KEY [ALGORITHM] = Inl SignatureMismatch \<and>
   verify_token (credentials_exception []) 3600000000 alice_read_token
     = verify_token (credentials_exception []) 3600000000 tampered_token \<and>
   get_current_user 3600000000 users_db [] alice_read_token
     = get_current_user 3600000000 users_db [] tampered_token"
  by (simp add: alice_read_token_def tampered_token_def create_access_token_def jwt_encode_def
      jwt_decode_def verify_token_def get_current_user_def timedelta_minutes_def Let_def)

text \<open>
  Claim C8, amended. In chapter 15 verification fails with one error only, the 401
  \<open>credentials_exception\<close>, whatever the reason (signature mismatch, malformed token,
  expiry, missing subject, claims of a wrong type), and \<^verbatim>\<open>get_current_user\<close> raises it.
  In chapter 14 a decoding failure (signature mismatch, malformed token, expiry) and a
  missing subject raise the one 401 exception of that chapter. Otherwise, for a payload
  with a subject and scopes, verification returns the decoded claims.
\<close>

theorem verify_failures_collapse:
  "(verify_token (credentials_exception sc) now tok = Inl exc \<longrightarrow>
      exc = credentials_exception sc \<and> status_code exc = HTTP_401_UNAUTHORIZED \<and>
      get_current_user now db sc tok = Inl exc) \<and>
   (jwt_decode now tok SECRET_KEY [ALGORITHM] = Inl err \<or>
    (\<exists>payload. jwt_decode now tok SECRET_KEY [ALGORITHM] = Inr payload \<and>
       payload_get payload ''sub'' = None) \<longrightarrow>
      verify_token (credentials_exception sc) now tok = Inl (credentials_exception sc)) \<and>
   (jwt_decode now tok SECRET_KEY_ch14 [ALGORITHM] = Inl err \<or>
    (\<exists>payload. jwt_decode now tok SECRET_KEY_ch14 [ALGORITHM] = Inr payload \<and>
       payload_get payload ''sub'' = None) \<longrightarrow>
      get_current_user_ch14 now db14 tok = Inl (HTTP credentials_exception_ch14) \<and>
      status_code credentials_exception_ch14 = HTTP_401_UNAUTHORIZED) \<and>
   (jwt_decode now tok SECRET_KEY [ALGORITHM] = Inr payload \<and>
    map_of payload ''sub'' = Some (JStr subject) \<and>
    map_of payload ''scopes'' = Some (JList (map JStr scs)) \<longrightarrow>
      verify_token (credentials_exception sc) now tok
        = Inr \<lparr>td_username = Some subject, td_scopes = scs\<rparr>)"
proof -
  have a: "verify_token (credentials_exception sc) now tok = Inl exc \<longrightarrow>
      exc = credentials_exception sc \<and> status_code exc = HTTP_401_UNAUTHORIZED \<and>
      get_current_user now db sc tok = Inl exc"
    by (auto simp: verify_token_def get_current_user_def credentials_exception_def Let_def
             split: sum.splits option.splits)
  have b: "jwt_decode now tok SECRET_KEY [ALGORITHM] = Inl err \<or>
    (\<exists>payload. jwt_decode now tok SECRET_KEY [ALGORITHM] = Inr payload \<and>
       payload_get payload ''sub'' = None) \<longrightarrow>
      verify_token (credentials_exception sc) now tok = Inl (credentials_exception sc)"
    by (auto simp: verify_token_def)
  have c: "jwt_decode now tok SECRET_KEY_ch14 [ALGORITHM] = Inl err \<or>
    (\<exists>payload. jwt_decode now tok SECRET_KEY_ch14 [ALGORITHM] = Inr payload \<and>
       payload_get payload ''sub'' = None) \<longrightarrow>
      get_current_user_ch14 now db14 tok = Inl (HTTP credentials_exception_ch14) \<and>
      status_code credentials_exception_ch14 = HTTP_401_UNAUTHORIZED"
    by (auto simp: get_current_user_ch14_def credentials_exception_ch14_def)
  have d: "jwt_decode now tok SECRET_KEY [ALGORITHM] = Inr payload \<and>
    map_of payload ''sub'' = Some (JStr subject) \<and>
    map_of payload ''scopes'' = Some (JList (map JStr scs)) \<longrightarrow>
      verify_token (credentials_exception sc) now tok
        = Inr \<lparr>td_username = Some subject, td_scopes = scs\<rparr>"
    by (simp add: verify_token_def payload_get_def TokenData_init_def strs_of_map_JStr)
  from a b c d show ?thesis by blast
qed

theorem verify_failures_collapse_witness:
  "verify_token (credentials_exception []) 3600000000 alice_read_token
     = Inl (credentials_exception []) \<and>
   verify_token (credentials_exception []) 5 tampered_token = Inl (credentials_exception []) \<and>
   verify_token (credentials_exception []) 5 no_subject_token = Inl (credentials_exception []) \<and>
   get_current_user 5 users_db [] wrong_type_token = Inl (credentials_exception []) \<and>
   get_current_user_ch14 5 users_db_ch14 (Malformed ''garbage'')
     = Inl (HTTP credentials_exception_ch14) \<and>
   verify_token (credentials_exception []) 5 alice_read_token
     = Inr \<lparr>td_username = Some ''alice'', td_scopes = [''items:read'']\<rparr>"
proof -
  note defs = alice_read_token_def tampered_token_def no_subject_token_def
    wrong_type_token_def create_access_token_def jwt_encode_def jwt_decode_def
    timedelta_minutes_def Let_def
  have expired: "jwt_decode 3600000000 alice_read_token SECRET_KEY [ALGORITHM] = Inl ExpiredSignature"
    by (simp add: defs)
  have tampered: "jwt_decode 5 tampered_token SECRET_KEY [ALGORITHM] = Inl SignatureMismatch"
    by (simp add: defs)
  have no_subject: "\<exists>payload. jwt_decode 5 no_subject_token SECRET_KEY [ALGORITHM] = Inr payload \<and>
      payload_get payload ''sub'' = None"
    by (simp add: defs payload_get_def)
  have wrong_type: "verify_token (credentials_exception []) 5 wrong_type_token
      = Inl (credentials_exception [])"
    by (simp add: defs verify_token_def payload_get_def TokenData_init_def)
  have garbage: "jwt_decode 5 (Malformed ''garbage'') SECRET_KEY_ch14 [ALGORITHM] = Inl MalformedToken"
    by (simp add: jwt_decode_def)
  have good: "jwt_decode 5 alice_read_token SECRET_KEY [ALGORITHM]
      = Inr [(''sub'', JStr ''alice''), (''scopes'', JList [JStr ''items:read'']),
             (''exp'', JInt 1800000000)] \<and>
    map_of [(''sub'', JStr ''alice''), (''scopes'', JList [JStr ''items:read'']),
             (''exp'', JInt 1800000000)] ''sub'' = Some (JStr ''alice'') \<and>
    map_of [(''sub'', JStr ''alice''), (''scopes'', JList [JStr ''items:read'']),
             (''exp'', JInt 1800000000)] ''scopes'' = Some (JList (map JStr [''items:read'']))"
    by (simp add: defs)
  have 1: "verify_token (credentials_exception []) 3600000000 alice_read_token
      = Inl (credentials_exception [])"
    using verify_failures_collapse
            [where now = 3600000000 and tok = alice_read_token and err = ExpiredSignature
               and sc = "[]"] expired
    by blast
  have 2: "verify_token (credentials_exception []) 5 tampered_token = Inl (credentials_exception [])"
    using verify_failures_collapse
            [where now = 5 and tok = tampered_token and err = SignatureMismatch and sc = "[]"]
          tampered
    by blast
  have 3: "verify_token (credentials_exception []) 5 no_subject_token = Inl (credentials_exception [])"
    using verify_failures_collapse [where now = 5 and tok = no_subject_token and sc = "[]"]
          no_subject
    by blast
  have 4: "get_current_user 5 users_db [] wrong_type_token = Inl (credentials_exception [])"
    using verify_failures_collapse
            [where now = 5 and tok = wrong_type_token and sc = "[]" and db = users_db
               and exc = "credentials_exception []"] wrong_type
    by blast
  have 5: "get_current_user_ch14 5 users_db_ch14 (Malformed ''garbage'')
      = Inl (HTTP credentials_exception_ch14)"
    using verify_failures_collapse
            [where now = 5 and tok = "Malformed ''garbage''" and err = MalformedToken
               and ?db14.0 = users_db_ch14] garbage
    by blast
  have 6: "verify_token (credentials_exception []) 5 alice_read_token
      = Inr \<lparr>td_username = Some ''alice'', td_scopes = [''items:read'']\<rparr>"
    using verify_failures_collapse
            [where now = 5 and tok = alice_read_token and sc = "[]"
               and payload = "[(''sub'', JStr ''alice''), (''scopes'', JList [JStr ''items:read'']),
                  (''exp'', JInt 1800000000)]" and subject = "''alice''"
               and scs = "[''items:read'']"] good
    by blast
  from 1 2 3 4 5 6 show ?thesis by blast
qed

text \<open>
  Claim C2, as stated, fails: a deactivated user with a valid token is refused with status
  400 (Bad Request), which is not the Forbidden status 403.
\<close>

theorem disabled_user_not_forbidden:
  "get_current_user 5 users_db [] bob_token
     = Inl \<lparr>status_code = HTTP_400_BAD_REQUEST, detail = UserDisabled, headers = None\<rparr> \<and>
   HTTP_400_BAD_REQUEST \<noteq> HTTP_403_FORBIDDEN"
  by (simp add: bob_token_def create_access_token_def jwt_encode_def jwt_decode_def
      verify_token_def get_current_user_def timedelta_minutes_def Let_def payload_get_def
      TokenData_init_def get_user_def users_db_def bob_def
      HTTP_400_BAD_REQUEST_def HTTP_403_FORBIDDEN_def)

text \<open>
  Claim C2, amended. For every request with a valid token whose subject names an existing
  user record that is disabled, the chain fails with status 400 (Bad Request), in
  \<^verbatim>\<open>get_current_user\<close> of chapter 15 and in \<^verbatim>\<open>get_current_active_user\<close> of chapter 14.
\<close>

theorem disabled_user_bad_request:
  "(verify_token (credentials_exception sc) now tok = Inr td \<and> td_username td = Some name \<and>
    get_user db name = Some user \<and> disabled user \<longrightarrow>
      get_current_user now db sc tok
        = Inl \<lparr>status_code = HTTP_400_BAD_REQUEST, detail = UserDisabled, headers = None\<rparr>) \<and>
   (get_current_user_ch14 now db14 tok = Inr user14 \<and> disabled_ch14 user14 \<longrightarrow>
      get_current_active_user_ch14 now db14 tok
        = Inl (HTTP \<lparr>status_code = HTTP_400_BAD_REQUEST, detail = AccountDisabled,
                     headers = None\<rparr>))"
  by (simp add: get_current_user_def get_current_active_user_ch14_def)

theorem disabled_user_bad_request_witness:
  "get_current_user 5 users_db [''items:read''] bob_token
     = Inl \<lparr>status_code = HTTP_400_BAD_REQUEST, detail = UserDisabled, headers = None\<rparr> \<and>
   get_current_active_user_ch14 5 users_db_ch14 carol_token_ch14
     = Inl (HTTP \<lparr>status_code = HTTP_400_BAD_REQUEST, detail = AccountDisabled,
                  headers = None\<rparr>)"
  using disabled_user_bad_request
          [of "[''items:read'']" 5 bob_token "\<lparr>td_username = Some ''bob'', td_scopes = [''items:read'']\<rparr>"
              "''bob''" users_db bob users_db_ch14 carol_ch14]
        disabled_user_bad_request
          [of "[''items:read'']" 5 carol_token_ch14 "\<lparr>td_username = Some ''bob'', td_scopes = [''items:read'']\<rparr>"
              "''bob''" users_db bob users_db_ch14 carol_ch14]
  by (simp add: bob_token_def carol_token_ch14_def create_access_token_def jwt_encode_def
      jwt_decode_def verify_token_def timedelta_minutes_def Let_def payload_get_def
      TokenData_init_def get_user_def users_db_def bob_def get_current_user_ch14_def
      get_user_ch14_def users_db_ch14_def carol_ch14_def)

text \<open>
  Claim C3, as stated, fails: a required scope that the token lacks is refused with status
  401 (Unauthorized), which is not the Forbidden status 403.
\<close>

theorem missing_scope_not_forbidden:
  "get_current_user 5 users_db [''items:write''] alice_read_token
     = Inl \<lparr>status_code = HTTP_401_UNAUTHORIZED, detail = InsufficientPermission,
            headers = Some [(''WWW-Authenticate'', authenticate_value [''items:write''])]\<rparr> \<and>
   HTTP_401_UNAUTHORIZED \<noteq> HTTP_403_FORBIDDEN"
  by (simp add: alice_read_token_def create_access_token_def jwt_encode_def jwt_decode_def
      verify_token_def get_current_user_def timedelta_minutes_def Let_def payload_get_def
      TokenData_init_def get_user_def users_db_def alice_def
      HTTP_401_UNAUTHORIZED_def HTTP_403_FORBIDDEN_def)

text \<open>
  Claim C3, amended. For every request by an existing, active user with a valid token: if
  some scope that the endpoint requires is not among the scopes of the token, the chain
  fails with status 401 (Unauthorized) and the detail "insufficient permission"; if every
  required scope is present, the chain succeeds and returns the user's record.
\<close>

theorem scope_guard:
  assumes "verify_token (credentials_exception sc) now tok = Inr td"
    and "td_username td = Some name" and "get_user db name = Some user" and "\<not> disabled user"
  shows "get_current_user now db sc tok =
           (if set sc \<subseteq> set (td_scopes td) then Inr user
            else Inl \<lparr>status_code = HTTP_401_UNAUTHORIZED, detail = InsufficientPermission,
                      headers = Some [(''WWW-Authenticate'', authenticate_value sc)]\<rparr>)"
  using assms by (simp add: get_current_user_def require_scopes_iff)

theorem scope_guard_witness:
  "get_current_user 5 users_db [''items:read''] alice_read_token = Inr alice \<and>
   get_current_user 5 users_db [''items:write''] alice_read_token
     = Inl \<lparr>status_code = HTTP_401_UNAUTHORIZED, detail = InsufficientPermission,
            headers = Some [(''WWW-Authenticate'', authenticate_value [''items:write''])]\<rparr>"
  using scope_guard [of "[''items:read'']" 5 alice_read_token
          "\<lparr>td_username = Some ''alice'', td_scopes = [''items:read'']\<rparr>" "''alice''" users_db alice]
        scope_guard [of "[''items:write'']" 5 alice_read_token
          "\<lparr>td_username = Some ''alice'', td_scopes = [''items:read'']\<rparr>" "''alice''" users_db alice]
  by (simp add: alice_read_token_def create_access_token_def jwt_encode_def jwt_decode_def
      verify_token_def timedelta_minutes_def Let_def payload_get_def
      TokenData_init_def get_user_def users_db_def alice_def)

text \<open>
  Claim C9. For every successful login, the scopes in the claims of the issued token are
  among the scopes of the authenticated user's record at that moment (and among the
  requested ones): a requested scope that the user does not hold is dropped.
\<close>

theorem granted_scopes_subset:
  assumes "login_for_access_token pwd_context now db form_data = Inr t"
  shows "\<exists>user payload granted.
           authenticate_user pwd_context db (form_username form_data) (form_password form_data)
             = Some user \<and>
           jwt_decode now (access_token t) SECRET_KEY [ALGORITHM] = Inr payload \<and>
           map_of payload ''sub'' = Some (JStr (username user)) \<and>
           map_of payload ''scopes'' = Some (JList (map JStr granted)) \<and>
           set granted \<subseteq> set (scopes user) \<and> set granted \<subseteq> set (form_scopes form_data)"
proof (cases "authenticate_user pwd_context db (form_username form_data) (form_password form_data)")
  case None
  with assms show ?thesis by (simp add: login_for_access_token_def)
next
  case (Some user)
  let ?granted = "filter (\<lambda>scope. scope \<in> set (scopes user)) (form_scopes form_data)"
  let ?data = "[(''sub'', JStr (username user)), (''scopes'', JList (map JStr ?granted))]"
  have t: "access_token t =
      create_access_token now ?data (Some (timedelta_minutes ACCESS_TOKEN_EXPIRE_MINUTES))"
    using assms Some by (auto simp: login_for_access_token_def Let_def)
  have pos: "0 < timedelta_minutes ACCESS_TOKEN_EXPIRE_MINUTES"
    by (simp add: timedelta_minutes_def ACCESS_TOKEN_EXPIRE_MINUTES_def)
  have dec: "jwt_decode now (access_token t) SECRET_KEY [ALGORITHM]
      = Inr (AList.update ''exp'' (JInt (now + timedelta_minutes ACCESS_TOKEN_EXPIRE_MINUTES)) ?data)"
    unfolding t using pos by (intro decode_created) simp_all
  show ?thesis
    using Some dec by (intro exI [of _ user] exI [of _ ?granted] exI conjI) (auto simp: update_conv')
qed

theorem granted_scopes_subset_witness:
  "\<exists>user payload granted.
     authenticate_user toy_pwd_context users_db ''alice'' ''alice'' = Some user \<and>
     jwt_decode 0
       (create_access_token 0
          [(''sub'', JStr ''alice''), (''scopes'', JList [JStr ''items:read''])]
          (Some (timedelta_minutes 30))) SECRET_KEY [ALGORITHM] = Inr payload \<and>
     map_of payload ''sub'' = Some (JStr (username user)) \<and>
     map_of payload ''scopes'' = Some (JList (map JStr granted)) \<and>
     set granted \<subseteq> set (scopes user) \<and> set granted \<subseteq> {''items:read'', ''admin''}"
  using granted_scopes_subset [of toy_pwd_context 0 users_db
          "\<lparr>form_username = ''alice'', form_password = ''alice'',
            form_scopes = [''items:read'', ''admin'']\<rparr>"
          "\<lparr>access_token = create_access_token 0
               [(''sub'', JStr ''alice''), (''scopes'', JList [JStr ''items:read''])]
               (Some (timedelta_minutes 30)), token_type = ''bearer''\<rparr>"]
  by (simp add: login_for_access_token_def authenticate_user_def get_user_def users_db_def
      alice_def verify_password_def toy_pwd_context_def ACCESS_TOKEN_EXPIRE_MINUTES_def Let_def)

end
